theory Spec2Isabelle
  imports Complex_Main "HOL-Library.Log_Nat"
begin

section \<open>JavaScript numbers\<close>

text \<open>
  A JavaScript number is an IEEE-754 binary64 value. The model keeps the four kinds of
  value the server can observe: \<open>NaN\<close>, the two infinities, and a finite double, which is
  held as the rational it denotes. The sign of zero is not kept: \<open>-0\<close> and \<open>+0\<close> compare
  equal, are both falsy and both print as \<open>0\<close>, so no expression of the server tells
  them apart.
\<close>

datatype jsnum = NaN | NegInf | Fin rat | PosInf

text \<open>The relational operators \<open><\<close> and \<open><=\<close>: every comparison with \<open>NaN\<close> is false.\<close>

fun js_lt :: "jsnum \<Rightarrow> jsnum \<Rightarrow> bool" where
  "js_lt NaN _ = False"
| "js_lt _ NaN = False"
| "js_lt _ NegInf = False"
| "js_lt NegInf _ = True"
| "js_lt PosInf _ = False"
| "js_lt (Fin a) (Fin b) = (a < b)"
| "js_lt (Fin a) PosInf = True"

fun js_le :: "jsnum \<Rightarrow> jsnum \<Rightarrow> bool" where
  "js_le NaN _ = False"
| "js_le _ NaN = False"
| "js_le NegInf _ = True"
| "js_le _ PosInf = True"
| "js_le PosInf _ = False"
| "js_le (Fin a) (Fin b) = (a \<le> b)"
| "js_le (Fin a) NegInf = False"

definition js_gt :: "jsnum \<Rightarrow> jsnum \<Rightarrow> bool" where
  "js_gt a b = js_lt b a"

definition isNaN :: "jsnum \<Rightarrow> bool" where
  "isNaN x = (x = NaN)"

text \<open>\<open>x || d\<close> on numbers: \<open>NaN\<close> and zero are falsy, every other number is truthy.\<close>

definition num_or :: "jsnum \<Rightarrow> jsnum \<Rightarrow> jsnum" where
  "num_or x d = (if x = NaN \<or> x = Fin 0 then d else x)"

subsection \<open>Rounding to binary64\<close>

text \<open>
  Round to nearest, ties to even. For a positive rational \<open>a\<close> with binary exponent
  \<open>e = \<lfloor>log\<^sub>2 a\<rfloor>\<close> the spacing of doubles around \<open>a\<close> is \<open>2 ^ (max e (-1022) - 52)\<close>;
  a result of \<open>2 ^ 1024\<close> or more (exponent 1024, or exponent 1023 with the mantissa
  rounded up to \<open>2 ^ 53\<close>) is an infinity.
\<close>

definition pow2 :: "int \<Rightarrow> rat" where
  "pow2 e = (if 0 \<le> e then 2 ^ nat e else 1 / 2 ^ nat (- e))"

definition floor_log2 :: "rat \<Rightarrow> int" where
  "floor_log2 a =
     (let (n, d) = quotient_of a;
          e0 = bitlen n - bitlen d
      in if pow2 e0 \<le> a then e0 else e0 - 1)"

definition round_half_even :: "rat \<Rightarrow> int" where
  "round_half_even x =
     (let f = \<lfloor>x\<rfloor>; r = x - of_int f
      in if r < 1 / 2 then f
         else if 1 / 2 < r then f + 1
         else if even f then f else f + 1)"

definition round_double :: "rat \<Rightarrow> jsnum" where
  "round_double q =
     (if q = 0 then Fin 0
      else
        let a = \<bar>q\<bar>;
            e = floor_log2 a;
            ulp = pow2 (max e (- 1022) - 52);
            m = round_half_even (a / ulp)
        in if 1024 \<le> e \<or> (e = 1023 \<and> m = 2 ^ 53) then (if q < 0 then NegInf else PosInf)
           else Fin (if q < 0 then - (of_int m * ulp) else of_int m * ulp))"

text \<open>The subtraction operator \<open>a - b\<close>.\<close>

fun js_sub :: "jsnum \<Rightarrow> jsnum \<Rightarrow> jsnum" where
  "js_sub NaN _ = NaN"
| "js_sub _ NaN = NaN"
| "js_sub PosInf PosInf = NaN"
| "js_sub NegInf NegInf = NaN"
| "js_sub PosInf _ = PosInf"
| "js_sub NegInf _ = NegInf"
| "js_sub _ PosInf = NegInf"
| "js_sub _ NegInf = PosInf"
| "js_sub (Fin a) (Fin b) = round_double (a - b)"

section \<open>Parsing numbers from strings\<close>

text \<open>
  A string is a list of code units below 256, so the strings of the model are the
  JavaScript strings over U+0000 to U+00FF. Both \<open>parseInt\<close> and \<open>parseFloat\<close> first drop
  leading white space and line terminators and then read the longest prefix that is a
  numeral; what follows the numeral is ignored. An argument that is \<open>undefined\<close> is first
  converted to the string \<open>undefined\<close>.
\<close>

definition isWhiteSpace :: "char \<Rightarrow> bool" where
  \<comment> \<open>tab, line feed, vertical tab, form feed, carriage return, space and no-break space:
      the white space and line terminators of the language below U+0100\<close>
  "isWhiteSpace c =
     (c \<in> set [CHR 0x09, CHR 0x0A, CHR 0x0B, CHR 0x0C, CHR 0x0D, CHR 0x20, CHR 0xA0])"

definition charCode :: "char \<Rightarrow> nat" where
  "charCode c = of_char c"

definition isDigit :: "char \<Rightarrow> bool" where
  "isDigit c = (48 \<le> charCode c \<and> charCode c \<le> 57)"

definition digitVal :: "char \<Rightarrow> int" where
  "digitVal c = int (charCode c) - 48"

definition isHexDigit :: "char \<Rightarrow> bool" where
  "isHexDigit c =
     (isDigit c \<or> (97 \<le> charCode c \<and> charCode c \<le> 102) \<or> (65 \<le> charCode c \<and> charCode c \<le> 70))"

definition hexVal :: "char \<Rightarrow> int" where
  "hexVal c =
     (if isDigit c then digitVal c
      else if 97 \<le> charCode c then int (charCode c) - 87
      else int (charCode c) - 55)"

definition digitsVal :: "int \<Rightarrow> (char \<Rightarrow> int) \<Rightarrow> string \<Rightarrow> int" where
  "digitsVal radix val ds = foldl (\<lambda>acc c. acc * radix + val c) 0 ds"

definition toStringOpt :: "string option \<Rightarrow> string" where
  "toStringOpt v = (case v of None \<Rightarrow> ''undefined'' | Some s \<Rightarrow> s)"

definition startsWith :: "string \<Rightarrow> string \<Rightarrow> bool" where
  "startsWith p s = (take (length p) s = p)"

definition signOf :: "string \<Rightarrow> bool \<times> string" where
  "signOf s =
     (case s of
        c # rest \<Rightarrow> if c = CHR ''-'' then (True, rest)
                    else if c = CHR ''+'' then (False, rest)
                    else (False, s)
      | [] \<Rightarrow> (False, s))"

definition signed :: "bool \<Rightarrow> jsnum \<Rightarrow> jsnum" where
  "signed neg v =
     (if neg then (case v of Fin q \<Rightarrow> Fin (- q) | PosInf \<Rightarrow> NegInf | NegInf \<Rightarrow> PosInf | NaN \<Rightarrow> NaN)
      else v)"

text \<open>
  \<open>parseInt(string)\<close> with no radix: radix 16 after a \<open>0x\<close> or \<open>0X\<close> prefix, radix 10
  otherwise; \<open>NaN\<close> when no digit can be read.
\<close>

definition parseInt :: "string option \<Rightarrow> jsnum" where
  "parseInt v =
     (let s = dropWhile isWhiteSpace (toStringOpt v);
          (neg, s1) = signOf s
      in if startsWith ''0x'' s1 \<or> startsWith ''0X'' s1 then
           (let z = takeWhile isHexDigit (drop 2 s1)
            in if z = [] then NaN else signed neg (round_double (of_int (digitsVal 16 hexVal z))))
         else
           (let z = takeWhile isDigit s1
            in if z = [] then NaN else signed neg (round_double (of_int (digitsVal 10 digitVal z)))))"

text \<open>
  \<open>parseFloat(string)\<close>: an optional sign, then \<open>Infinity\<close> or decimal digits with an
  optional fraction and an optional exponent. An exponent counts only when at least one
  digit follows its indicator.
\<close>

definition exponentPart :: "string \<Rightarrow> int" where
  "exponentPart s =
     (case s of
        c # rest \<Rightarrow>
          if c = CHR ''e'' \<or> c = CHR ''E'' then
            (let (neg, r) = signOf rest; ds = takeWhile isDigit r
             in if ds = [] then 0
                else if neg then - digitsVal 10 digitVal ds else digitsVal 10 digitVal ds)
          else 0
      | [] \<Rightarrow> 0)"

definition pow10 :: "int \<Rightarrow> rat" where
  "pow10 e = (if 0 \<le> e then 10 ^ nat e else 1 / 10 ^ nat (- e))"

definition parseFloat :: "string option \<Rightarrow> jsnum" where
  "parseFloat v =
     (let s = dropWhile isWhiteSpace (toStringOpt v);
          (neg, s1) = signOf s
      in if startsWith ''Infinity'' s1 then signed neg PosInf
         else
           let ip = takeWhile isDigit s1;
               r1 = dropWhile isDigit s1;
               dot = (r1 \<noteq> [] \<and> hd r1 = CHR ''.'');
               fp = (if dot then takeWhile isDigit (tl r1) else []);
               r2 = (if dot then dropWhile isDigit (tl r1) else r1)
           in if ip = [] \<and> fp = [] then NaN
              else signed neg
                     (round_double
                        (of_int (digitsVal 10 digitVal (ip @ fp))
                           * pow10 (exponentPart r2 - int (length fp)))))"

section \<open>Server start-up: port resolution\<close>

text \<open>
  \<open>getPort\<close> scans \<open>process.argv.slice(2)\<close> from left to right. The first argument that is
  all digits, or starts with \<open>--port=\<close>, or is \<open>-p\<close> / \<open>--port\<close> followed by an all-digit
  argument decides the port; otherwise \<open>parseInt(process.env.PORT) || 3000\<close>.
\<close>

definition allDigits :: "string \<Rightarrow> bool" where
  \<comment> \<open>the regular expression \<open>/^\d+$/\<close>\<close>
  "allDigits s = (s \<noteq> [] \<and> list_all isDigit s)"

definition splitEq1 :: "string \<Rightarrow> string option" where
  \<comment> \<open>\<open>arg.split('=')[1]\<close>: the text between the first and the second \<open>=\<close>\<close>
  "splitEq1 s =
     (let r = dropWhile (\<lambda>c. c \<noteq> CHR ''='') s
      in if r = [] then None else Some (takeWhile (\<lambda>c. c \<noteq> CHR ''='') (tl r)))"

fun getPort_loop :: "string list \<Rightarrow> jsnum option" where
  "getPort_loop [] = None"
| "getPort_loop (arg # rest) =
     (if allDigits arg then Some (parseInt (Some arg))
      else if startsWith ''--port='' arg then Some (parseInt (splitEq1 arg))
      else if (arg = ''-p'' \<or> arg = ''--port'')
              \<and> (case rest of [] \<Rightarrow> False | nextArg # _ \<Rightarrow> allDigits nextArg)
           then Some (parseInt (Some (hd rest)))
      else getPort_loop rest)"

definition getPort :: "string list \<Rightarrow> string option \<Rightarrow> jsnum" where
  "getPort argv env_PORT =
     (case getPort_loop (drop 2 argv) of
        Some p \<Rightarrow> p
      | None \<Rightarrow> num_or (parseInt env_PORT) (Fin 3000))"

text \<open>
  The top level of the server script: a help request prints the usage and calls
  \<open>process.exit(0)\<close> before the port is read; a port for which \<open>PORT < 1 || PORT > 65535\<close>
  holds calls \<open>process.exit(1)\<close>; otherwise the script goes on to \<open>app.listen(PORT)\<close>.
  The steps between the range check and \<open>app.listen\<close> (creating and purging the scratch
  directory, probing the tool, registering the routes) do not depend on the port and are
  left out.
\<close>

datatype startup_result = Exit nat | Listening jsnum

definition port_out_of_range :: "jsnum \<Rightarrow> bool" where
  \<comment> \<open>\<open>PORT < 1 || PORT > 65535\<close>\<close>
  "port_out_of_range PORT = (js_lt PORT (Fin 1) \<or> js_gt PORT (Fin 65535))"

text \<open>
  \<open>app.listen(port)\<close> hands the port to Node's \<open>net.Server.listen\<close>, which accepts a
  number only if it is an integer from 0 to 65535 and otherwise throws a \<open>RangeError\<close>
  (\<open>ERR_SOCKET_BAD_PORT\<close>) before any socket is created. Nothing catches it at the top
  level of the script, so the process ends with exit status 1.
\<close>

definition validPort :: "jsnum \<Rightarrow> bool" where
  "validPort p = (case p of Fin q \<Rightarrow> q = of_int \<lfloor>q\<rfloor> \<and> 0 \<le> q \<and> q \<le> 65535 | _ \<Rightarrow> False)"

definition app_listen :: "jsnum \<Rightarrow> startup_result" where
  "app_listen port = (if validPort port then Listening port else Exit 1)"

definition startup :: "string list \<Rightarrow> string option \<Rightarrow> startup_result" where
  "startup argv env_PORT =
     (if ''--help'' \<in> set argv \<or> ''-h'' \<in> set argv then Exit 0
      else
        let PORT = getPort argv env_PORT
        in if port_out_of_range PORT then Exit 1 else app_listen PORT)"

section \<open>The format registry\<close>

record format_spec =
  ext :: string
  codec :: "string list"

definition FORMATS :: "(string \<times> format_spec) list" where
  "FORMATS =
     [(''mp4'', \<lparr>ext = ''mp4'', codec = [''-c:v'', ''libx264'', ''-c:a'', ''aac'', ''-preset'', ''fast'']\<rparr>),
      (''webm'', \<lparr>ext = ''webm'', codec = [''-c:v'', ''libvpx-vp9'', ''-c:a'', ''libopus'', ''-b:v'', ''1M'']\<rparr>),
      (''mkv'', \<lparr>ext = ''mkv'', codec = [''-c:v'', ''libx264'', ''-c:a'', ''aac'', ''-preset'', ''fast'']\<rparr>),
      (''mov'', \<lparr>ext = ''mov'', codec = [''-c:v'', ''libx264'', ''-c:a'', ''aac'', ''-preset'', ''fast'']\<rparr>),
      (''mp3'', \<lparr>ext = ''mp3'', codec = [''-vn'', ''-c:a'', ''libmp3lame'', ''-q:a'', ''2'']\<rparr>),
      (''wav'', \<lparr>ext = ''wav'', codec = [''-vn'', ''-c:a'', ''pcm_s16le'']\<rparr>)]"

text \<open>
  \<open>FORMATS\<close> is an object literal, so its prototype is \<open>Object.prototype\<close>, and the
  property read \<open>FORMATS[key]\<close> finds the object's own six properties first and the
  properties of \<open>Object.prototype\<close> after them. Each inherited property is a function
  (or, for \<open>__proto__\<close>, the prototype object): a truthy value that has neither an \<open>ext\<close>
  nor a \<open>codec\<close> property.
\<close>

definition Object_prototype_keys :: "string list" where
  "Object_prototype_keys =
     [''constructor'', ''__defineGetter__'', ''__defineSetter__'', ''hasOwnProperty'',
      ''__lookupGetter__'', ''__lookupSetter__'', ''isPrototypeOf'', ''propertyIsEnumerable'',
      ''toString'', ''valueOf'', ''__proto__'', ''toLocaleString'']"

datatype jsval = Undefined | Entry format_spec | Inherited

definition FORMATS_get :: "string \<Rightarrow> jsval" where
  "FORMATS_get key =
     (case map_of FORMATS key of
        Some spec \<Rightarrow> Entry spec
      | None \<Rightarrow> if key \<in> set Object_prototype_keys then Inherited else Undefined)"

definition truthy :: "jsval \<Rightarrow> bool" where
  "truthy v = (v \<noteq> Undefined)"

definition formats_listing :: "string list" where
  \<comment> \<open>\<open>GET /api/formats\<close>: \<open>Object.keys(FORMATS)\<close>\<close>
  "formats_listing = map fst FORMATS"

section \<open>Requests, the world, and what a handler does\<close>

text \<open>
  Strings that the handlers assemble from run-time values are kept symbolic: a string is
  a list of pieces, and the pieces for \<open>os.tmpdir()/videolab\<close>, the path separator,
  \<open>Date.now()\<close>, \<open>path.parse(name).name\<close>, \<open>Number.prototype.toString\<close> and
  \<open>toFixed(1)\<close> stand for the text those library calls produce.
\<close>

datatype piece =
    Lit string
  | TempDir
  | Sep
  | DateNow
  | ParsedName string
  | NumToString jsnum
  | NumToFixed1 jsnum

type_synonym jstext = "piece list"

record upload =
  file_path :: string
  file_originalname :: string

record request =
  req_file :: "upload option"
  body_format :: "string option"
  body_startTime :: "string option"
  body_endTime :: "string option"

text \<open>
  The world supplies everything a handler learns from outside: the start-up probe of the
  tool, which event the child process ends with (\<open>error\<close>, or \<open>close\<close> with its exit
  code, \<open>None\<close> for \<open>null\<close>), the chunks it wrote to standard error, whether it left a
  file at the output path, whether the download reported an error and whether the
  response headers had been sent by then.
\<close>

datatype child_event = ErrorEvent | CloseEvent "int option"

record world =
  ffmpegAvailable :: bool
  child :: child_event
  stderr_chunks :: "string list"
  writes_output :: bool
  download_err :: bool
  headersSent :: bool

datatype exn = ENOENT | TypeError | ERR_HTTP_HEADERS_SENT

text \<open>
  A handler's observable steps, in order: calls of \<open>fs.unlinkSync\<close>, the call of
  \<open>spawn\<close> with its command and argument list, the line written with the captured
  diagnostics, \<open>res.status(c).json({error, details})\<close>, \<open>res.download(path, name)\<close>, and
  an exception that leaves the handler uncaught. The informational \<open>console.log\<close> lines
  are left out.
\<close>

datatype action =
    Unlink jstext
  | Spawn string "jstext list"
  | LogDiag string
  | Json nat string "string option"
  | Download jstext jstext
  | Uncaught exn

type_synonym scratch = "jstext set"

definition unlinkSync :: "jstext \<Rightarrow> scratch \<Rightarrow> scratch option" where
  \<comment> \<open>\<open>None\<close>: the call throws because the file does not exist\<close>
  "unlinkSync p fs = (if p \<in> fs then Some (fs - {p}) else None)"

definition slice_last :: "nat \<Rightarrow> string \<Rightarrow> string" where
  \<comment> \<open>\<open>s.slice(-n)\<close>\<close>
  "slice_last n s = drop (length s - n) s"

definition on_data :: "string \<Rightarrow> string \<Rightarrow> string" where
  \<comment> \<open>the \<open>data\<close> listener on the child's standard error: \<open>stderr += data.toString()\<close>\<close>
  "on_data stderr chunk = stderr @ chunk"

definition captured :: "string list \<Rightarrow> string" where
  \<comment> \<open>the buffer after the listener has run on each chunk, starting from \<open>''\<close>\<close>
  "captured chunks = foldl on_data [] chunks"

text \<open>
  A validation failure with an upload present: \<open>fs.unlinkSync(req.file.path)\<close> outside
  any \<open>try\<close>, then the JSON error response.
\<close>

definition reject :: "string \<Rightarrow> nat \<Rightarrow> string \<Rightarrow> scratch \<Rightarrow> action list \<times> scratch" where
  "reject p status msg fs =
     (case unlinkSync [Lit p] fs of
        None \<Rightarrow> ([Unlink [Lit p], Uncaught ENOENT], fs)
      | Some fs' \<Rightarrow> ([Unlink [Lit p], Json status msg None], fs'))"

text \<open>
  \<open>try { if (fs.existsSync(outputPath)) fs.unlinkSync(outputPath); } catch (e) {}\<close>
\<close>

definition remove_output :: "jstext \<Rightarrow> scratch \<Rightarrow> action list \<times> scratch" where
  "remove_output outputPath fs =
     (if outputPath \<in> fs then ([Unlink outputPath], fs - {outputPath}) else ([], fs))"

text \<open>
  The \<open>close\<close> listener. It first removes the input inside a \<open>try\<close> whose \<open>catch\<close> is
  empty. A code other than 0 logs the last 500 characters of the buffer, removes the
  output if it exists and answers 500 with the last 300 characters as details. Code 0
  starts the download, whose callback removes the output if it exists and answers 500
  only when the download failed before the headers were sent.
\<close>

definition on_close ::
  "world \<Rightarrow> jstext \<Rightarrow> jstext \<Rightarrow> jstext \<Rightarrow> string \<Rightarrow> int option \<Rightarrow> scratch \<Rightarrow> action list \<times> scratch"
where
  "on_close w inputPath outputPath outputName failMsg code fs =
     (let stderr = captured (stderr_chunks w);
          fs1 = fs - {inputPath};
          (rm, fs2) = remove_output outputPath fs1
      in if code \<noteq> Some 0 then
           ([Unlink inputPath, LogDiag (slice_last 500 stderr)] @ rm
              @ [Json 500 failMsg (Some (slice_last 300 stderr))], fs2)
         else
           ([Unlink inputPath, Download outputPath outputName] @ rm
              @ (if download_err w \<and> \<not> headersSent w then [Json 500 ''Download failed'' None] else []),
            fs2))"

text \<open>
  The \<open>error\<close> listener (the process could not be started): it removes the input inside
  a \<open>try\<close> and answers 500; it is the first listener to run, no response has been sent
  before, so \<open>res.headersSent\<close> is false there.
\<close>

definition on_error :: "jstext \<Rightarrow> string \<Rightarrow> scratch \<Rightarrow> action list \<times> scratch" where
  "on_error inputPath startMsg fs = ([Unlink inputPath, Json 500 startMsg None], fs - {inputPath})"

text \<open>
  \<open>spawn('ffmpeg', args)\<close> followed by the events the world delivers. A child that ran
  may have left a file at the output path and ends with \<open>close\<close>. For a child that could
  not be started Node emits \<open>error\<close> and then \<open>close\<close> with the negative error number as
  code (\<open>-2\<close> when the program is not found), so both listeners run: the child wrote
  nothing to standard error, the \<open>close\<close> listener takes its branch for a code other than
  0, and its \<open>res.status(500).json(...)\<close> comes after the response of the \<open>error\<close>
  listener; setting a header on a response that has been sent throws
  \<open>ERR_HTTP_HEADERS_SENT\<close>, which nothing catches.
\<close>

definition child_steps ::
  "world \<Rightarrow> jstext \<Rightarrow> jstext \<Rightarrow> jstext \<Rightarrow> string \<Rightarrow> string \<Rightarrow> scratch \<Rightarrow> action list \<times> scratch"
where
  "child_steps w inputPath outputPath outputName failMsg startMsg fs =
     (case child w of
        ErrorEvent \<Rightarrow>
          (let (tr1, fs1) = on_error inputPath startMsg fs;
               (tr2, fs2) =
                 on_close (w\<lparr>stderr_chunks := []\<rparr>) inputPath outputPath outputName failMsg
                   (Some (- 2)) fs1
           in (tr1 @ tr2 @ [Uncaught ERR_HTTP_HEADERS_SENT], fs2))
      | CloseEvent code \<Rightarrow>
          on_close w inputPath outputPath outputName failMsg code
            (if writes_output w then insert outputPath fs else fs))"

definition run_ffmpeg ::
  "world \<Rightarrow> jstext list \<Rightarrow> jstext \<Rightarrow> jstext \<Rightarrow> jstext \<Rightarrow> string \<Rightarrow> string \<Rightarrow> scratch
     \<Rightarrow> action list \<times> scratch"
where
  "run_ffmpeg w args inputPath outputPath outputName failMsg startMsg fs =
     (let (tr, fs') = child_steps w inputPath outputPath outputName failMsg startMsg fs
      in (Spawn ''ffmpeg'' args # tr, fs'))"

section \<open>POST /api/convert\<close>

text \<open>
  Both handlers test the registry entry with \<open>!FORMATS[targetFormat]\<close> and later read
  \<open>FORMATS[targetFormat].ext\<close> and spread \<open>FORMATS[targetFormat].codec\<close> into the argument
  array. On an inherited property \<open>codec\<close> is \<open>undefined\<close>, and spreading \<open>undefined\<close>
  into an array literal throws a \<open>TypeError\<close>; nothing in the handler catches it.
\<close>

definition convert_args :: "format_spec \<Rightarrow> jstext \<Rightarrow> jstext \<Rightarrow> jstext list" where
  "convert_args spec inputPath outputPath =
     [[Lit ''-i''], inputPath, [Lit ''-y'']] @ map (\<lambda>c. [Lit c]) (codec spec) @ [outputPath]"

definition convert :: "world \<Rightarrow> request \<Rightarrow> scratch \<Rightarrow> action list \<times> scratch" where
  "convert w req fs =
     (if \<not> ffmpegAvailable w then
        (case req_file req of
           Some f \<Rightarrow> reject (file_path f) 500 ''FFmpeg is not installed on the server'' fs
         | None \<Rightarrow> ([Json 500 ''FFmpeg is not installed on the server'' None], fs))
      else
        case req_file req of
          None \<Rightarrow> ([Json 400 ''No video file provided'' None], fs)
        | Some f \<Rightarrow>
            (let v = FORMATS_get (toStringOpt (body_format req))
             in if \<not> truthy v then reject (file_path f) 400 ''Invalid format'' fs
                else
                  (case v of
                     Entry spec \<Rightarrow>
                       let inputPath = [Lit (file_path f)];
                           outputName =
                             [Lit ''videoLab_'', ParsedName (file_originalname f), Lit ''.'',
                              Lit (ext spec)];
                           outputPath = [TempDir, Sep, Lit ''out_'', DateNow, Lit ''_''] @ outputName
                       in run_ffmpeg w (convert_args spec inputPath outputPath) inputPath outputPath
                            outputName ''Conversion failed'' ''Failed to start conversion'' fs
                   | _ \<Rightarrow> ([Uncaught TypeError], fs))))"

section \<open>POST /api/clip\<close>

definition clip_args :: "format_spec \<Rightarrow> jsnum \<Rightarrow> jsnum \<Rightarrow> jstext \<Rightarrow> jstext \<Rightarrow> jstext list" where
  "clip_args spec startTime duration inputPath outputPath =
     [[Lit ''-ss''], [NumToString startTime], [Lit ''-i''], inputPath,
      [Lit ''-t''], [NumToString duration], [Lit ''-y'']]
       @ map (\<lambda>c. [Lit c]) (codec spec)
       @ [[Lit ''-avoid_negative_ts''], [Lit ''make_zero''], outputPath]"

definition clip_targetFormat :: "request \<Rightarrow> string" where
  \<comment> \<open>\<open>req.body.format || 'mp4'\<close>: a missing or empty field is falsy\<close>
  "clip_targetFormat req =
     (case body_format req of None \<Rightarrow> ''mp4'' | Some s \<Rightarrow> if s = [] then ''mp4'' else s)"

definition clip_startTime :: "request \<Rightarrow> jsnum" where
  \<comment> \<open>\<open>parseFloat(req.body.startTime) || 0\<close>\<close>
  "clip_startTime req = num_or (parseFloat (body_startTime req)) (Fin 0)"

definition clip_endTime :: "request \<Rightarrow> jsnum" where
  \<comment> \<open>\<open>parseFloat(req.body.endTime)\<close>\<close>
  "clip_endTime req = parseFloat (body_endTime req)"

definition clip :: "world \<Rightarrow> request \<Rightarrow> scratch \<Rightarrow> action list \<times> scratch" where
  "clip w req fs =
     (if \<not> ffmpegAvailable w then
        (case req_file req of
           Some f \<Rightarrow> reject (file_path f) 500 ''FFmpeg is not installed on the server'' fs
         | None \<Rightarrow> ([Json 500 ''FFmpeg is not installed on the server'' None], fs))
      else
        case req_file req of
          None \<Rightarrow> ([Json 400 ''No video file provided'' None], fs)
        | Some f \<Rightarrow>
            (let startTime = clip_startTime req;
                 endTime = clip_endTime req;
                 v = FORMATS_get (clip_targetFormat req)
             in if \<not> truthy v then reject (file_path f) 400 ''Invalid format'' fs
                else if isNaN endTime \<or> js_le endTime startTime then
                  reject (file_path f) 400 ''Invalid time range'' fs
                else
                  (case v of
                     Entry spec \<Rightarrow>
                       let inputPath = [Lit (file_path f)];
                           duration = js_sub endTime startTime;
                           outputName =
                             [Lit ''clip_'', ParsedName (file_originalname f), Lit ''_'',
                              NumToFixed1 startTime, Lit ''s-'', NumToFixed1 endTime, Lit ''s.'',
                              Lit (ext spec)];
                           outputPath = [TempDir, Sep, Lit ''clip_'', DateNow, Lit ''_''] @ outputName
                       in run_ffmpeg w (clip_args spec startTime duration inputPath outputPath)
                            inputPath outputPath outputName ''Clip creation failed''
                            ''Failed to start clip creation'' fs
                   | _ \<Rightarrow> ([Uncaught TypeError], fs))))"

section \<open>Observations on a handler's steps\<close>

fun spawned :: "action list \<Rightarrow> (string \<times> jstext list) list" where
  "spawned [] = []"
| "spawned (Spawn cmd args # tr) = (cmd, args) # spawned tr"
| "spawned (_ # tr) = spawned tr"

text \<open>
  What follows \<open>-vn -c:a <codec>\<close> in an argument list (\<open>None\<close> if the list does not
  start that way), and the same for a format identifier of the registry.
\<close>

fun after_audio_codec :: "string list \<Rightarrow> string list option" where
  "after_audio_codec (a # b # c # rest) = (if a = ''-vn'' \<and> b = ''-c:a'' then Some rest else None)"
| "after_audio_codec _ = None"

definition audio_quality_args :: "string \<Rightarrow> string list option" where
  "audio_quality_args key =
     (case map_of FORMATS key of Some spec \<Rightarrow> after_audio_codec (codec spec) | None \<Rightarrow> None)"

text \<open>An integer from 1 to 65535.\<close>

definition integer_1_to_65535 :: "jsnum \<Rightarrow> bool" where
  "integer_1_to_65535 p =
     (case p of Fin q \<Rightarrow> q = of_int \<lfloor>q\<rfloor> \<and> 1 \<le> q \<and> q \<le> 65535 | _ \<Rightarrow> False)"

subsection \<open>Sample inputs\<close>

definition sample_upload :: upload where
  "sample_upload = \<lparr>file_path = ''/tmp/videolab/upload_1700000000000_holiday.avi'',
                     file_originalname = ''holiday.avi''\<rparr>"

definition sample_scratch :: scratch where
  "sample_scratch = {[Lit ''/tmp/videolab/upload_1700000000000_holiday.avi'']}"

definition sample_world :: world where
  "sample_world = \<lparr>ffmpegAvailable = True, child = CloseEvent (Some 0), stderr_chunks = [],
                    writes_output = True, download_err = False, headersSent = True\<rparr>"

definition sample_request :: "string option \<Rightarrow> string option \<Rightarrow> string option \<Rightarrow> request" where
  "sample_request fmt st en =
     \<lparr>req_file = Some sample_upload, body_format = fmt, body_startTime = st, body_endTime = en\<rparr>"

section \<open>Facts about the building blocks\<close>

lemma js_le_total: "a \<noteq> NaN \<Longrightarrow> b \<noteq> NaN \<Longrightarrow> \<not> js_le a b \<Longrightarrow> js_lt b a"
  by (cases a; cases b) auto

lemma js_lt_trans_le: "js_le a b \<Longrightarrow> js_lt b c \<Longrightarrow> js_lt a c"
  by (cases a; cases b; cases c) auto

lemma clip_startTime_not_NaN: "clip_startTime req \<noteq> NaN"
  by (simp add: clip_startTime_def num_or_def)

lemma spawned_append: "spawned (xs @ ys) = spawned xs @ spawned ys"
  by (induction xs rule: spawned.induct) simp_all

lemma remove_output_cases:
  "remove_output p fs = ([Unlink p], fs - {p}) \<or> remove_output p fs = ([], fs)"
  by (simp add: remove_output_def)

lemma spawned_on_close: "spawned (fst (on_close w i p n fm code fs)) = []"
  using remove_output_cases [of p "fs - {i}"]
  by (auto simp: on_close_def Let_def spawned_append split: prod.splits)

lemma fst_run_ffmpeg:
  "fst (run_ffmpeg w args i p n fm sm fs) = Spawn ''ffmpeg'' args # fst (child_steps w i p n fm sm fs)"
  by (simp add: run_ffmpeg_def split_beta)

lemma snd_run_ffmpeg:
  "snd (run_ffmpeg w args i p n fm sm fs) = snd (child_steps w i p n fm sm fs)"
  by (simp add: run_ffmpeg_def split_beta)

lemma spawned_child_steps: "spawned (fst (child_steps w i p n fm sm fs)) = []"
  by (simp add: child_steps_def on_error_def spawned_on_close spawned_append split_beta
           split: child_event.splits)

lemma spawned_run_ffmpeg:
  "spawned (fst (run_ffmpeg w args i p n fm sm fs)) = [(''ffmpeg'', args)]"
  by (simp add: fst_run_ffmpeg spawned_child_steps)

lemma json_on_close:
  "Json st m d \<in> set (fst (on_close w i p n fm code fs)) \<Longrightarrow> st = 500"
  using remove_output_cases [of p "fs - {i}"]
  by (auto simp: on_close_def Let_def split: prod.splits if_splits)

lemma json_run_ffmpeg:
  "Json st m d \<in> set (fst (run_ffmpeg w args i p n fm sm fs)) \<Longrightarrow> st = 500"
  by (auto simp: fst_run_ffmpeg child_steps_def on_error_def split_beta
           split: child_event.splits dest: json_on_close)

lemma unlink_on_close: "Unlink i \<in> set (fst (on_close w i p n fm code fs))"
  by (simp add: on_close_def Let_def split_beta)

lemma unlink_run_ffmpeg: "Unlink i \<in> set (fst (run_ffmpeg w args i p n fm sm fs))"
  by (simp add: fst_run_ffmpeg child_steps_def on_error_def unlink_on_close split_beta
           split: child_event.splits)

lemma scratch_on_close: "snd (on_close w i p n fm code fs) = fs - {i} - {p}"
  by (auto simp: on_close_def remove_output_def Let_def split: prod.splits)

lemma scratch_run_ffmpeg: "snd (run_ffmpeg w args i p n fm sm fs) \<subseteq> fs - {i}"
  by (auto simp: snd_run_ffmpeg child_steps_def on_error_def scratch_on_close split_beta
           split: child_event.splits)

lemma failed_spawn_steps:
  assumes "child w = ErrorEvent" and "p \<notin> fs"
  shows "child_steps w i p n fm sm fs =
           ([Unlink i, Json 500 sm None, Unlink i, LogDiag [], Json 500 fm (Some []),
             Uncaught ERR_HTTP_HEADERS_SENT], fs - {i})"
  using assms
  by (simp add: child_steps_def on_error_def on_close_def remove_output_def captured_def
        slice_last_def Let_def)

lemma reject_result:
  "[Lit path] \<in> fs \<Longrightarrow>
     reject path st m fs = ([Unlink [Lit path], Json st m None], fs - {[Lit path]})"
  by (simp add: reject_def unlinkSync_def)

lemma reject_json:
  "Json st' m' d \<in> set (fst (reject path st m fs)) \<Longrightarrow> st' = st \<and> m' = m"
  by (auto simp: reject_def split: option.splits)

lemma spawned_reject: "spawned (fst (reject path st m fs)) = []"
  by (auto simp: reject_def split: option.splits)

lemma foldl_on_data: "foldl on_data acc chunks = acc @ concat chunks"
  by (induction chunks arbitrary: acc) (simp_all add: on_data_def)

lemma captured_concat: "captured chunks = concat chunks"
  by (simp add: captured_def foldl_on_data)

lemma clip_invalid_time_range_only_if:
  "Json 400 ''Invalid time range'' None \<in> set (fst (clip w req fs)) \<Longrightarrow>
     isNaN (clip_endTime req) \<or> js_le (clip_endTime req) (clip_startTime req)"
  by (auto simp: clip_def Let_def split: if_splits option.splits jsval.splits
           dest: reject_json json_run_ffmpeg)

lemma clip_spawn_only_if:
  "spawned (fst (clip w req fs)) \<noteq> [] \<Longrightarrow>
     \<not> isNaN (clip_endTime req) \<and> \<not> js_le (clip_endTime req) (clip_startTime req)"
  by (auto simp: clip_def Let_def spawned_reject split: if_splits option.splits jsval.splits)

section \<open>The format registry (C6, C7)\<close>

text \<open>
  The registry's own keys are exactly the six identifiers, each with its extension and a
  non-empty argument list, and these are what \<open>GET /api/formats\<close> lists. A key that is
  neither one of the six nor a property of \<open>Object.prototype\<close> reads as \<open>undefined\<close>.
\<close>

lemma registry_own_keys:
  "map_of FORMATS key = Some spec \<Longrightarrow>
     key \<in> {''mp4'', ''webm'', ''mkv'', ''mov'', ''mp3'', ''wav''} \<and> ext spec = key \<and> codec spec \<noteq> []"
  by (auto simp: FORMATS_def split: if_splits)

lemma registry_lookup_own:
  "key \<in> {''mp4'', ''webm'', ''mkv'', ''mov'', ''mp3'', ''wav''} \<Longrightarrow>
     \<exists>spec. FORMATS_get key = Entry spec \<and> codec spec \<noteq> []"
  by (auto simp: FORMATS_get_def FORMATS_def)

lemma registry_lookup_unknown:
  "key \<notin> {''mp4'', ''webm'', ''mkv'', ''mov'', ''mp3'', ''wav''} \<Longrightarrow>
   key \<notin> set Object_prototype_keys \<Longrightarrow> FORMATS_get key = Undefined"
  by (auto simp: FORMATS_get_def FORMATS_def)

lemma formats_listing_keys:
  "formats_listing = [''mp4'', ''webm'', ''mkv'', ''mov'', ''mp3'', ''wav'']"
  by (simp add: formats_listing_def FORMATS_def)

text \<open>
  C6. The claim: lookup succeeds for exactly mp4, webm, mkv, mov, mp3 and wav, and for
  every other identifier it reports not-found, so that both endpoints reject the request.
  The code at the identifier \<open>constructor\<close>: the property read finds the inherited
  \<open>Object.prototype.constructor\<close>, which is truthy, so neither endpoint answers
  \<open>Invalid format\<close>; each handler goes on to spread the missing \<open>codec\<close> and ends in an
  uncaught \<open>TypeError\<close> without starting the transcoder.
\<close>

theorem inherited_key_passes_format_check:
  "FORMATS_get ''constructor'' = Inherited
   \<and> truthy (FORMATS_get ''constructor'')
   \<and> Json 400 ''Invalid format'' None
        \<notin> set (fst (convert sample_world (sample_request (Some ''constructor'') None None)
                      sample_scratch))
   \<and> Json 400 ''Invalid format'' None
        \<notin> set (fst (clip sample_world
                      (sample_request (Some ''constructor'') (Some ''0'') (Some ''10''))
                      sample_scratch))
   \<and> fst (clip sample_world (sample_request (Some ''constructor'') (Some ''0'') (Some ''10''))
           sample_scratch) = [Uncaught TypeError]"
  by code_simp

text \<open>
  C7, as stated: for mp3 and for wav the list is \<open>-vn\<close>, an audio codec selection and a
  quality setting. For wav nothing follows the codec selection.
\<close>

theorem wav_has_no_quality_setting:
  "audio_quality_args ''wav'' = Some []"
  by code_simp

text \<open>
  C7, amended: for mp3 and for wav the list starts with \<open>-vn\<close> followed by the audio
  codec selection \<open>-c:a <codec>\<close>; mp3's list ends with the quality setting \<open>-q:a 2\<close>
  and wav's list ends with the codec selection.
\<close>

theorem audio_formats_args:
  "map_of FORMATS ''mp3''
     = Some \<lparr>ext = ''mp3'', codec = [''-vn'', ''-c:a'', ''libmp3lame'', ''-q:a'', ''2'']\<rparr>
   \<and> map_of FORMATS ''wav'' = Some \<lparr>ext = ''wav'', codec = [''-vn'', ''-c:a'', ''pcm_s16le'']\<rparr>
   \<and> audio_quality_args ''mp3'' = Some [''-q:a'', ''2'']
   \<and> audio_quality_args ''wav'' = Some []"
  by code_simp

section \<open>Validation in POST /api/convert (C4)\<close>

text \<open>
  What the handler does when one of its three checks fires, in the order of the checks.
  Without the tool the answer is 500 \<open>FFmpeg is not installed on the server\<close>, whatever
  the file and the format are; with the tool and no file it is 400
  \<open>No video file provided\<close>, whatever the format is; with the tool, a file and a format
  that reads as \<open>undefined\<close> it is 400 \<open>Invalid format\<close>. In each case the upload, when
  there is one (stored in the scratch directory), is unlinked first, the response is the
  only other step, and no process is started.
\<close>

lemma convert_checks_in_order:
  "(\<not> ffmpegAvailable w \<and> req_file req = None \<longrightarrow>
      convert w req fs = ([Json 500 ''FFmpeg is not installed on the server'' None], fs))
   \<and> (\<not> ffmpegAvailable w \<and> req_file req = Some f \<and> [Lit (file_path f)] \<in> fs \<longrightarrow>
      convert w req fs =
        ([Unlink [Lit (file_path f)], Json 500 ''FFmpeg is not installed on the server'' None],
         fs - {[Lit (file_path f)]}))
   \<and> (ffmpegAvailable w \<and> req_file req = None \<longrightarrow>
      convert w req fs = ([Json 400 ''No video file provided'' None], fs))
   \<and> (ffmpegAvailable w \<and> req_file req = Some f \<and> [Lit (file_path f)] \<in> fs
        \<and> FORMATS_get (toStringOpt (body_format req)) = Undefined \<longrightarrow>
      convert w req fs =
        ([Unlink [Lit (file_path f)], Json 400 ''Invalid format'' None],
         fs - {[Lit (file_path f)]}))"
  by (simp add: convert_def reject_result truthy_def)

lemma convert_checks_in_order_examples:
  "convert (sample_world\<lparr>ffmpegAvailable := False\<rparr>)
       (sample_request (Some ''flac'') None None\<lparr>req_file := None\<rparr>) sample_scratch
     = ([Json 500 ''FFmpeg is not installed on the server'' None], sample_scratch)
   \<and> convert (sample_world\<lparr>ffmpegAvailable := False\<rparr>) (sample_request (Some ''mp4'') None None)
       sample_scratch
     = ([Unlink [Lit ''/tmp/videolab/upload_1700000000000_holiday.avi''],
         Json 500 ''FFmpeg is not installed on the server'' None], {})
   \<and> convert sample_world (sample_request (Some ''flac'') None None\<lparr>req_file := None\<rparr>)
       sample_scratch
     = ([Json 400 ''No video file provided'' None], sample_scratch)
   \<and> convert sample_world (sample_request (Some ''flac'') None None) sample_scratch
     = ([Unlink [Lit ''/tmp/videolab/upload_1700000000000_holiday.avi''],
         Json 400 ''Invalid format'' None], {})"
proof -
  let ?off = "sample_world\<lparr>ffmpegAvailable := False\<rparr>"
  let ?nofile = "sample_request (Some ''flac'') None None\<lparr>req_file := None\<rparr>"
  have off: "\<not> ffmpegAvailable ?off" and on: "ffmpegAvailable sample_world"
    by (simp_all add: sample_world_def)
  have nofile: "req_file ?nofile = None"
    by simp
  have upl: "req_file (sample_request fmt None None) = Some sample_upload" for fmt
    by (simp add: sample_request_def)
  have stored: "[Lit (file_path sample_upload)] \<in> sample_scratch"
    by (simp add: sample_upload_def sample_scratch_def)
  have flac: "FORMATS_get (toStringOpt (body_format (sample_request (Some ''flac'') None None)))
                = Undefined"
    by code_simp
  have rest: "sample_scratch - {[Lit ''/tmp/videolab/upload_1700000000000_holiday.avi'']} = {}"
    and path: "file_path sample_upload = ''/tmp/videolab/upload_1700000000000_holiday.avi''"
    by (simp_all add: sample_upload_def sample_scratch_def)
  from convert_checks_in_order [of ?off ?nofile sample_scratch] off nofile
  have 1: "convert ?off ?nofile sample_scratch
             = ([Json 500 ''FFmpeg is not installed on the server'' None], sample_scratch)"
    by blast
  from convert_checks_in_order
         [of ?off "sample_request (Some ''mp4'') None None" sample_scratch sample_upload]
       off upl stored
  have 2: "convert ?off (sample_request (Some ''mp4'') None None) sample_scratch
             = ([Unlink [Lit (file_path sample_upload)],
                 Json 500 ''FFmpeg is not installed on the server'' None],
                sample_scratch - {[Lit (file_path sample_upload)]})"
    by blast
  from convert_checks_in_order [of sample_world ?nofile sample_scratch] on nofile
  have 3: "convert sample_world ?nofile sample_scratch
             = ([Json 400 ''No video file provided'' None], sample_scratch)"
    by blast
  from convert_checks_in_order
         [of sample_world "sample_request (Some ''flac'') None None" sample_scratch sample_upload]
       on upl stored flac
  have 4: "convert sample_world (sample_request (Some ''flac'') None None) sample_scratch
             = ([Unlink [Lit (file_path sample_upload)], Json 400 ''Invalid format'' None],
                sample_scratch - {[Lit (file_path sample_upload)]})"
    by blast
  from 1 2 3 4 show ?thesis
    by (simp add: rest path)
qed

text \<open>
  C4. The claim: \<open>POST /api/convert\<close> validates the tool, then the file, then the format,
  and any validation failure deletes the upload and returns an error response without
  starting the transcoder. The code at a request with the tool available, an uploaded
  file and \<open>format=toString\<close>, which is none of the six formats: the format check does
  not fire, the upload is not unlinked and no error response is written by the handler,
  which ends in an uncaught \<open>TypeError\<close>.
\<close>

theorem convert_unknown_format_no_error_response:
  "''toString'' \<notin> set formats_listing
   \<and> ffmpegAvailable sample_world
   \<and> req_file (sample_request (Some ''toString'') None None) = Some sample_upload
   \<and> [Lit (file_path sample_upload)] \<in> sample_scratch
   \<and> fst (convert sample_world (sample_request (Some ''toString'') None None) sample_scratch)
       = [Uncaught TypeError]
   \<and> snd (convert sample_world (sample_request (Some ''toString'') None None) sample_scratch)
       = sample_scratch"
  by code_simp

section \<open>The transcoder's argument list (C5)\<close>

text \<open>
  C5. A request that passes validation (tool available, file present, format one of the
  registry's entries and, for a clip, an end time that is a number greater than the start
  time) starts exactly one process, \<open>ffmpeg\<close>, with a list of separate arguments:
  \<open>-i <input> -y <codec args> <output>\<close> for a conversion, and
  \<open>-ss <start> -i <input> -t <end - start> -y <codec args> -avoid_negative_ts make_zero
  <output>\<close> for a clip, the value after \<open>-t\<close> being the end time minus the start time.
\<close>

theorem transcoder_argument_lists:
  "(ffmpegAvailable w \<and> req_file req = Some f
      \<and> FORMATS_get (toStringOpt (body_format req)) = Entry spec \<longrightarrow>
    spawned (fst (convert w req fs)) =
      [(''ffmpeg'',
        [[Lit ''-i''], [Lit (file_path f)], [Lit ''-y'']]
          @ map (\<lambda>c. [Lit c]) (codec spec)
          @ [[TempDir, Sep, Lit ''out_'', DateNow, Lit ''_'', Lit ''videoLab_'',
              ParsedName (file_originalname f), Lit ''.'', Lit (ext spec)]])])
   \<and> (ffmpegAvailable w \<and> req_file req = Some f
      \<and> FORMATS_get (clip_targetFormat req) = Entry spec
      \<and> \<not> isNaN (clip_endTime req) \<and> \<not> js_le (clip_endTime req) (clip_startTime req) \<longrightarrow>
    spawned (fst (clip w req fs)) =
      [(''ffmpeg'',
        [[Lit ''-ss''], [NumToString (clip_startTime req)], [Lit ''-i''], [Lit (file_path f)],
         [Lit ''-t''], [NumToString (js_sub (clip_endTime req) (clip_startTime req))], [Lit ''-y'']]
          @ map (\<lambda>c. [Lit c]) (codec spec)
          @ [[Lit ''-avoid_negative_ts''], [Lit ''make_zero''],
             [TempDir, Sep, Lit ''clip_'', DateNow, Lit ''_'', Lit ''clip_'',
              ParsedName (file_originalname f), Lit ''_'', NumToFixed1 (clip_startTime req),
              Lit ''s-'', NumToFixed1 (clip_endTime req), Lit ''s.'', Lit (ext spec)]])])"
  by (simp add: convert_def clip_def truthy_def Let_def spawned_run_ffmpeg convert_args_def
        clip_args_def)

theorem transcoder_argument_lists_witness:
  "spawned (fst (convert sample_world (sample_request (Some ''mp3'') None None) sample_scratch)) =
     [(''ffmpeg'',
       [[Lit ''-i''], [Lit ''/tmp/videolab/upload_1700000000000_holiday.avi''], [Lit ''-y''],
        [Lit ''-vn''], [Lit ''-c:a''], [Lit ''libmp3lame''], [Lit ''-q:a''], [Lit ''2''],
        [TempDir, Sep, Lit ''out_'', DateNow, Lit ''_'', Lit ''videoLab_'',
         ParsedName ''holiday.avi'', Lit ''.'', Lit ''mp3'']])]
   \<and> spawned (fst (clip sample_world (sample_request None (Some ''1.5'') (Some ''4'')) sample_scratch)) =
     [(''ffmpeg'',
       [[Lit ''-ss''], [NumToString (Fin (3 / 2))], [Lit ''-i''],
        [Lit ''/tmp/videolab/upload_1700000000000_holiday.avi''],
        [Lit ''-t''], [NumToString (Fin (5 / 2))], [Lit ''-y''],
        [Lit ''-c:v''], [Lit ''libx264''], [Lit ''-c:a''], [Lit ''aac''], [Lit ''-preset''],
        [Lit ''fast''], [Lit ''-avoid_negative_ts''], [Lit ''make_zero''],
        [TempDir, Sep, Lit ''clip_'', DateNow, Lit ''_'', Lit ''clip_'', ParsedName ''holiday.avi'',
         Lit ''_'', NumToFixed1 (Fin (3 / 2)), Lit ''s-'', NumToFixed1 (Fin 4), Lit ''s.'',
         Lit ''mp4'']])]"
proof -
  let ?conv = "sample_request (Some ''mp3'') None None"
  let ?clip = "sample_request None (Some ''1.5'') (Some ''4'')"
  let ?mp3 = "\<lparr>ext = ''mp3'', codec = [''-vn'', ''-c:a'', ''libmp3lame'', ''-q:a'', ''2'']\<rparr>"
  let ?mp4 = "\<lparr>ext = ''mp4'',
               codec = [''-c:v'', ''libx264'', ''-c:a'', ''aac'', ''-preset'', ''fast'']\<rparr>"
  have on: "ffmpegAvailable sample_world"
    by (simp add: sample_world_def)
  have upl: "req_file (sample_request fmt st en) = Some sample_upload" for fmt st en
    by (simp add: sample_request_def)
  have mp3: "FORMATS_get (toStringOpt (body_format ?conv)) = Entry ?mp3"
    by code_simp
  have mp4: "FORMATS_get (clip_targetFormat ?clip) = Entry ?mp4"
    by code_simp
  have st: "clip_startTime ?clip = Fin (3 / 2)" and en: "clip_endTime ?clip = Fin 4"
    by code_simp+
  have dur: "round_double (5 / 2) = Fin (5 / 2)"
    by code_simp
  have range: "\<not> isNaN (clip_endTime ?clip)" "\<not> js_le (clip_endTime ?clip) (clip_startTime ?clip)"
    by (simp_all add: st en isNaN_def)
  from transcoder_argument_lists [of sample_world ?conv sample_upload ?mp3 sample_scratch]
       on upl mp3
  have 1: "spawned (fst (convert sample_world ?conv sample_scratch)) =
      [(''ffmpeg'',
        [[Lit ''-i''], [Lit (file_path sample_upload)], [Lit ''-y'']]
          @ map (\<lambda>c. [Lit c]) (codec ?mp3)
          @ [[TempDir, Sep, Lit ''out_'', DateNow, Lit ''_'', Lit ''videoLab_'',
              ParsedName (file_originalname sample_upload), Lit ''.'', Lit (ext ?mp3)]])]"
    by blast
  from transcoder_argument_lists [of sample_world ?clip sample_upload ?mp4 sample_scratch]
       on upl mp4 range
  have 2: "spawned (fst (clip sample_world ?clip sample_scratch)) =
      [(''ffmpeg'',
        [[Lit ''-ss''], [NumToString (clip_startTime ?clip)], [Lit ''-i''],
         [Lit (file_path sample_upload)],
         [Lit ''-t''], [NumToString (js_sub (clip_endTime ?clip) (clip_startTime ?clip))],
         [Lit ''-y'']]
          @ map (\<lambda>c. [Lit c]) (codec ?mp4)
          @ [[Lit ''-avoid_negative_ts''], [Lit ''make_zero''],
             [TempDir, Sep, Lit ''clip_'', DateNow, Lit ''_'', Lit ''clip_'',
              ParsedName (file_originalname sample_upload), Lit ''_'',
              NumToFixed1 (clip_startTime ?clip), Lit ''s-'', NumToFixed1 (clip_endTime ?clip),
              Lit ''s.'', Lit (ext ?mp4)]])]"
    by blast
  from 1 2 show ?thesis
    by (simp add: st en dur sample_upload_def)
qed

section \<open>The time range of a clip (C2, C3, C10)\<close>

text \<open>
  C2. Once \<open>POST /api/clip\<close> has passed the checks for the tool, the file and the format,
  it answers 400 \<open>Invalid time range\<close>, having unlinked the upload and without starting a
  process, exactly when \<open>endTime\<close> parses to \<open>NaN\<close> or to a value less than or equal to
  the start time (\<open>parseFloat(startTime) || 0\<close>). The cases \<open>endTime == startTime\<close> and a
  negative \<open>endTime\<close> with the default start are instances of the right-hand side.
\<close>

theorem clip_invalid_time_range_iff:
  assumes "ffmpegAvailable w" and "req_file req = Some f"
    and "truthy (FORMATS_get (clip_targetFormat req))" and "[Lit (file_path f)] \<in> fs"
  shows "(clip w req fs =
            ([Unlink [Lit (file_path f)], Json 400 ''Invalid time range'' None],
             fs - {[Lit (file_path f)]}))
         \<longleftrightarrow> (isNaN (clip_endTime req) \<or> js_le (clip_endTime req) (clip_startTime req))"
proof (cases "isNaN (clip_endTime req) \<or> js_le (clip_endTime req) (clip_startTime req)")
  case True
  with assms show ?thesis
    by (simp add: clip_def Let_def reject_result)
next
  case False
  have "fst (clip w req fs) \<noteq> [Unlink [Lit (file_path f)], Json 400 ''Invalid time range'' None]"
  proof (cases "FORMATS_get (clip_targetFormat req)")
    case Undefined
    with assms show ?thesis by (simp add: truthy_def)
  next
    case (Entry spec)
    with assms False show ?thesis
      by (simp add: clip_def Let_def fst_run_ffmpeg)
  next
    case Inherited
    with assms False show ?thesis
      by (simp add: clip_def Let_def)
  qed
  with False show ?thesis by auto
qed

theorem clip_invalid_time_range_iff_witness:
  "clip sample_world (sample_request (Some ''mp4'') (Some ''5'') (Some ''5'')) sample_scratch
     = ([Unlink [Lit ''/tmp/videolab/upload_1700000000000_holiday.avi''],
         Json 400 ''Invalid time range'' None], {})
   \<and> clip sample_world (sample_request (Some ''mp4'') None (Some ''-3'')) sample_scratch
     = ([Unlink [Lit ''/tmp/videolab/upload_1700000000000_holiday.avi''],
         Json 400 ''Invalid time range'' None], {})
   \<and> clip sample_world (sample_request (Some ''mp4'') (Some ''5'') (Some ''soon'')) sample_scratch
     = ([Unlink [Lit ''/tmp/videolab/upload_1700000000000_holiday.avi''],
         Json 400 ''Invalid time range'' None], {})
   \<and> clip sample_world (sample_request (Some ''mp4'') (Some ''5'') (Some ''5.5'')) sample_scratch
     \<noteq> ([Unlink [Lit ''/tmp/videolab/upload_1700000000000_holiday.avi''],
         Json 400 ''Invalid time range'' None], {})"
proof -
  let ?eq = "sample_request (Some ''mp4'') (Some ''5'') (Some ''5'')"
  let ?neg = "sample_request (Some ''mp4'') None (Some ''-3'')"
  let ?nan = "sample_request (Some ''mp4'') (Some ''5'') (Some ''soon'')"
  let ?ok = "sample_request (Some ''mp4'') (Some ''5'') (Some ''5.5'')"
  have on: "ffmpegAvailable sample_world"
    by (simp add: sample_world_def)
  have upl: "req_file (sample_request fmt st en) = Some sample_upload" for fmt st en
    by (simp add: sample_request_def)
  have fmt: "truthy (FORMATS_get (clip_targetFormat (sample_request (Some ''mp4'') st en)))" for st en
    by (simp add: sample_request_def clip_targetFormat_def FORMATS_get_def FORMATS_def truthy_def)
  have stored: "[Lit (file_path sample_upload)] \<in> sample_scratch"
    by (simp add: sample_upload_def sample_scratch_def)
  have rest: "sample_scratch - {[Lit ''/tmp/videolab/upload_1700000000000_holiday.avi'']} = {}"
    and path: "file_path sample_upload = ''/tmp/videolab/upload_1700000000000_holiday.avi''"
    by (simp_all add: sample_upload_def sample_scratch_def)
  have eq: "js_le (clip_endTime ?eq) (clip_startTime ?eq)"
    and neg: "js_le (clip_endTime ?neg) (clip_startTime ?neg)"
    and nan: "isNaN (clip_endTime ?nan)"
    and ok: "\<not> (isNaN (clip_endTime ?ok) \<or> js_le (clip_endTime ?ok) (clip_startTime ?ok))"
    by code_simp+
  have iff:
    "(clip sample_world (sample_request (Some ''mp4'') st en) sample_scratch =
        ([Unlink [Lit (file_path sample_upload)], Json 400 ''Invalid time range'' None],
         sample_scratch - {[Lit (file_path sample_upload)]}))
     \<longleftrightarrow> (isNaN (clip_endTime (sample_request (Some ''mp4'') st en))
          \<or> js_le (clip_endTime (sample_request (Some ''mp4'') st en))
               (clip_startTime (sample_request (Some ''mp4'') st en)))" for st en
    using clip_invalid_time_range_iff
            [of sample_world "sample_request (Some ''mp4'') st en" sample_upload sample_scratch,
             OF on upl fmt stored] .
  from iff [of "Some ''5''" "Some ''5''"] iff [of None "Some ''-3''"]
       iff [of "Some ''5''" "Some ''soon''"] iff [of "Some ''5''" "Some ''5.5''"]
       eq neg nan ok
  show ?thesis
    by (simp add: rest path)
qed

text \<open>
  C3, as stated: every clip request that reaches the transcoder has a non-negative start
  offset and a non-negative end offset. A request with \<open>startTime=-5\<close> and \<open>endTime=10\<close>
  passes the time-range check, and the process is started with \<open>-ss -5\<close>.
\<close>

theorem clip_negative_start_reaches_spawn:
  "map (take 2 \<circ> snd)
       (spawned (fst (clip sample_world (sample_request (Some ''mp4'') (Some ''-5'') (Some ''10''))
                        sample_scratch)))
     = [[[Lit ''-ss''], [NumToString (Fin (- 5))]]]
   \<and> js_lt (clip_startTime (sample_request (Some ''mp4'') (Some ''-5'') (Some ''10''))) (Fin 0)"
  by code_simp

text \<open>
  C3, amended: every clip request that reaches the transcoder has an end offset that is
  a number strictly greater than its start offset; so the end offset is positive whenever
  the start offset is non-negative. The sign of the start offset is not checked.
\<close>

theorem clip_spawn_end_after_start:
  assumes "spawned (fst (clip w req fs)) \<noteq> []"
  shows "js_lt (clip_startTime req) (clip_endTime req)
         \<and> (js_le (Fin 0) (clip_startTime req) \<longrightarrow> js_lt (Fin 0) (clip_endTime req))"
proof -
  from clip_spawn_only_if [OF assms]
  have "clip_endTime req \<noteq> NaN" and "\<not> js_le (clip_endTime req) (clip_startTime req)"
    by (simp_all add: isNaN_def)
  then have "js_lt (clip_startTime req) (clip_endTime req)"
    using clip_startTime_not_NaN js_le_total by blast
  then show ?thesis
    using js_lt_trans_le by blast
qed

theorem clip_spawn_end_after_start_witness:
  "spawned (fst (clip sample_world (sample_request (Some ''webm'') (Some ''2'') (Some ''7.25''))
                   sample_scratch)) \<noteq> []
   \<and> clip_startTime (sample_request (Some ''webm'') (Some ''2'') (Some ''7.25'')) = Fin 2
   \<and> clip_endTime (sample_request (Some ''webm'') (Some ''2'') (Some ''7.25'')) = Fin (29 / 4)
   \<and> js_lt (Fin 2) (Fin (29 / 4)) \<and> js_lt (Fin 0) (Fin (29 / 4))"
proof -
  let ?req = "sample_request (Some ''webm'') (Some ''2'') (Some ''7.25'')"
  have run: "spawned (fst (clip sample_world ?req sample_scratch)) \<noteq> []"
    by code_simp
  have st: "clip_startTime ?req = Fin 2" and en: "clip_endTime ?req = Fin (29 / 4)"
    by code_simp+
  from clip_spawn_end_after_start [OF run] run st en show ?thesis
    by simp
qed

text \<open>
  C10. In \<open>POST /api/clip\<close> a \<open>startTime\<close> field that is missing or not numeric (it parses
  to \<open>NaN\<close>) or zero becomes the start offset 0 and is never rejected for that: when
  \<open>endTime\<close> parses to a number greater than 0, no \<open>Invalid time range\<close> response is sent,
  and with the tool available, a file and a format of the registry the transcoder is
  started as a clip from offset 0 (\<open>-ss 0\<close>, \<open>-t\<close> the end time minus 0).
\<close>

theorem clip_startTime_coerced_to_zero:
  assumes "parseFloat (body_startTime req) = NaN \<or> parseFloat (body_startTime req) = Fin 0"
    and "js_lt (Fin 0) (clip_endTime req)"
  shows "clip_startTime req = Fin 0
         \<and> Json 400 ''Invalid time range'' None \<notin> set (fst (clip w req fs))
         \<and> (ffmpegAvailable w \<and> req_file req = Some f
              \<and> FORMATS_get (clip_targetFormat req) = Entry spec \<longrightarrow>
            spawned (fst (clip w req fs)) =
              [(''ffmpeg'',
                clip_args spec (Fin 0) (js_sub (clip_endTime req) (Fin 0)) [Lit (file_path f)]
                  [TempDir, Sep, Lit ''clip_'', DateNow, Lit ''_'', Lit ''clip_'',
                   ParsedName (file_originalname f), Lit ''_'', NumToFixed1 (Fin 0), Lit ''s-'',
                   NumToFixed1 (clip_endTime req), Lit ''s.'', Lit (ext spec)])])"
proof -
  have st: "clip_startTime req = Fin 0"
    using assms(1) by (auto simp: clip_startTime_def num_or_def)
  have ok: "\<not> isNaN (clip_endTime req)" "\<not> js_le (clip_endTime req) (Fin 0)"
    using assms(2) by (cases "clip_endTime req"; simp add: isNaN_def)+
  have nojson: "Json 400 ''Invalid time range'' None \<notin> set (fst (clip w req fs))"
    using clip_invalid_time_range_only_if [of w req fs] ok st by auto
  have "spawned (fst (clip w req fs)) =
          [(''ffmpeg'',
            clip_args spec (Fin 0) (js_sub (clip_endTime req) (Fin 0)) [Lit (file_path f)]
              [TempDir, Sep, Lit ''clip_'', DateNow, Lit ''_'', Lit ''clip_'',
               ParsedName (file_originalname f), Lit ''_'', NumToFixed1 (Fin 0), Lit ''s-'',
               NumToFixed1 (clip_endTime req), Lit ''s.'', Lit (ext spec)])]"
    if "ffmpegAvailable w" and "req_file req = Some f"
      and "FORMATS_get (clip_targetFormat req) = Entry spec"
    using that ok st by (simp add: clip_def Let_def truthy_def spawned_run_ffmpeg)
  with st nojson show ?thesis
    by blast
qed

text \<open>A missing field, text that is not a number, the empty string and zero.\<close>

lemma startTime_examples:
  "parseFloat None = NaN" "parseFloat (Some ''abc'') = NaN" "parseFloat (Some []) = NaN"
  "parseFloat (Some ''0'') = Fin 0" "parseFloat (Some ''0.0'') = Fin 0"
  by code_simp+

theorem clip_startTime_coerced_to_zero_witness:
  "parseFloat (body_startTime (sample_request (Some ''mkv'') (Some ''abc'') (Some ''10''))) = NaN
   \<and> clip_endTime (sample_request (Some ''mkv'') (Some ''abc'') (Some ''10'')) = Fin 10
   \<and> clip_startTime (sample_request (Some ''mkv'') (Some ''abc'') (Some ''10'')) = Fin 0
   \<and> Json 400 ''Invalid time range'' None
        \<notin> set (fst (clip sample_world (sample_request (Some ''mkv'') (Some ''abc'') (Some ''10''))
                      sample_scratch))
   \<and> map (take 6 \<circ> snd)
        (spawned (fst (clip sample_world (sample_request (Some ''mkv'') (Some ''abc'') (Some ''10''))
                         sample_scratch)))
      = [[[Lit ''-ss''], [NumToString (Fin 0)], [Lit ''-i''],
          [Lit ''/tmp/videolab/upload_1700000000000_holiday.avi''],
          [Lit ''-t''], [NumToString (Fin 10)]]]"
proof -
  let ?req = "sample_request (Some ''mkv'') (Some ''abc'') (Some ''10'')"
  let ?mkv = "\<lparr>ext = ''mkv'',
               codec = [''-c:v'', ''libx264'', ''-c:a'', ''aac'', ''-preset'', ''fast'']\<rparr>"
  have nan: "parseFloat (body_startTime ?req) = NaN" and en: "clip_endTime ?req = Fin 10"
    by code_simp+
  have pos: "js_lt (Fin 0) (clip_endTime ?req)"
    by (simp add: en)
  have on: "ffmpegAvailable sample_world"
    by (simp add: sample_world_def)
  have upl: "req_file ?req = Some sample_upload"
    by (simp add: sample_request_def)
  have mkv: "FORMATS_get (clip_targetFormat ?req) = Entry ?mkv"
    by code_simp
  have dur: "round_double 10 = Fin 10"
    by code_simp
  from clip_startTime_coerced_to_zero
         [of ?req sample_world sample_scratch sample_upload ?mkv, OF _ pos] nan on upl mkv
  have "clip_startTime ?req = Fin 0
         \<and> Json 400 ''Invalid time range'' None \<notin> set (fst (clip sample_world ?req sample_scratch))
         \<and> spawned (fst (clip sample_world ?req sample_scratch)) =
             [(''ffmpeg'',
               clip_args ?mkv (Fin 0) (js_sub (clip_endTime ?req) (Fin 0))
                 [Lit (file_path sample_upload)]
                 [TempDir, Sep, Lit ''clip_'', DateNow, Lit ''_'', Lit ''clip_'',
                  ParsedName (file_originalname sample_upload), Lit ''_'', NumToFixed1 (Fin 0),
                  Lit ''s-'', NumToFixed1 (clip_endTime ?req), Lit ''s.'', Lit (ext ?mkv)])]"
    by blast
  with nan en show ?thesis
    by (simp add: clip_args_def dur sample_upload_def)
qed

section \<open>The port check at start-up (C9)\<close>

text \<open>
  C9, as stated: every start-up configuration whose resolved port is not an integer from
  1 to 65535 ends with a non-zero exit status. With the arguments \<open>70000 --help\<close> the
  port argument resolves to 70000, and the process prints the usage and exits with
  status 0.
\<close>

theorem startup_help_exits_zero:
  "getPort [''node'', ''server.js'', ''70000'', ''--help''] None = Fin 70000
   \<and> startup [''node'', ''server.js'', ''70000'', ''--help''] None = Exit 0"
  by code_simp

text \<open>
  C9, amended: for every start-up configuration without \<open>-h\<close> or \<open>--help\<close> whose resolved
  port is not an integer from 1 to 65535, the process exits with status 1 and opens no
  listening socket.
\<close>

theorem startup_rejects_out_of_range_port:
  assumes "''--help'' \<notin> set argv" and "''-h'' \<notin> set argv"
    and "\<not> integer_1_to_65535 (getPort argv env_PORT)"
  shows "startup argv env_PORT = Exit 1"
proof (cases "port_out_of_range (getPort argv env_PORT)")
  case True
  with assms(1,2) show ?thesis
    by (simp add: startup_def Let_def)
next
  case False
  have "\<not> validPort (getPort argv env_PORT)"
    using assms(3) False
    by (cases "getPort argv env_PORT")
       (auto simp: validPort_def integer_1_to_65535_def port_out_of_range_def js_gt_def)
  with False assms(1,2) show ?thesis
    by (simp add: startup_def Let_def app_listen_def)
qed

theorem startup_rejects_out_of_range_port_witness:
  "''--help'' \<notin> set [''node'', ''server.js'', ''-p'', ''70000'']
   \<and> ''-h'' \<notin> set [''node'', ''server.js'', ''-p'', ''70000'']
   \<and> getPort [''node'', ''server.js'', ''-p'', ''70000''] (Some ''8080'') = Fin 70000
   \<and> \<not> integer_1_to_65535 (Fin 70000)
   \<and> startup [''node'', ''server.js'', ''-p'', ''70000''] (Some ''8080'') = Exit 1
   \<and> getPort [''node'', ''server.js'', ''--port=abc''] None = NaN
   \<and> \<not> integer_1_to_65535 NaN
   \<and> startup [''node'', ''server.js'', ''--port=abc''] None = Exit 1"
proof -
  let ?big = "[''node'', ''server.js'', ''-p'', ''70000'']"
  let ?abc = "[''node'', ''server.js'', ''--port=abc'']"
  have nh: "''--help'' \<notin> set ?big" "''-h'' \<notin> set ?big"
    "''--help'' \<notin> set ?abc" "''-h'' \<notin> set ?abc"
    by simp_all
  have big: "getPort ?big (Some ''8080'') = Fin 70000" and abc: "getPort ?abc None = NaN"
    by code_simp+
  have out: "\<not> integer_1_to_65535 (Fin 70000)" "\<not> integer_1_to_65535 NaN"
    by (simp_all add: integer_1_to_65535_def)
  from out big abc
  have hyp: "\<not> integer_1_to_65535 (getPort ?big (Some ''8080''))"
    "\<not> integer_1_to_65535 (getPort ?abc None)"
    by simp_all
  from startup_rejects_out_of_range_port [OF nh(1,2) hyp(1)]
       startup_rejects_out_of_range_port [OF nh(3,4) hyp(2)] nh big abc out
  show ?thesis
    by simp
qed

text \<open>
  What else the top level does: a help request always ends with status 0, and a socket
  is opened only on the resolved port, which is then an integer from 1 to 65535. The
  range check itself lets \<open>NaN\<close> through, because both comparisons with \<open>NaN\<close> are
  false; \<open>--port=abc\<close> ends in \<open>app.listen(NaN)\<close>. The precedence of the port sources is
  shown on examples.
\<close>

lemma startup_help:
  "''--help'' \<in> set argv \<or> ''-h'' \<in> set argv \<Longrightarrow> startup argv env_PORT = Exit 0"
  by (simp add: startup_def)

lemma startup_listening:
  assumes "startup argv env_PORT = Listening p"
  shows "p = getPort argv env_PORT \<and> integer_1_to_65535 p"
proof -
  from assms have p: "p = getPort argv env_PORT"
    and g: "\<not> port_out_of_range p" and v: "validPort p"
    by (auto simp: startup_def app_listen_def Let_def split: if_splits)
  from g v have "integer_1_to_65535 p"
    by (cases p)
       (auto simp: validPort_def integer_1_to_65535_def port_out_of_range_def js_gt_def)
  with p show ?thesis
    by simp
qed

lemma range_check_lets_NaN_through:
  "\<not> port_out_of_range NaN" "app_listen NaN = Exit 1"
  by (simp_all add: port_out_of_range_def js_gt_def app_listen_def validPort_def)

lemma startup_examples:
  "startup [''node'', ''server.js'', ''--port=abc''] None = Exit 1"
  "startup [''node'', ''server.js''] None = Listening (Fin 3000)"
  "startup [''node'', ''server.js''] (Some ''4000'') = Listening (Fin 4000)"
  "startup [''node'', ''server.js'', ''8080''] (Some ''4000'') = Listening (Fin 8080)"
  "startup [''node'', ''server.js'', ''--port=9000'', ''8080''] None = Listening (Fin 9000)"
  "startup [''node'', ''server.js'', ''-p'', ''8080''] None = Listening (Fin 8080)"
  "startup [''node'', ''server.js'', ''0''] None = Exit 1"
  "startup [''node'', ''server.js''] (Some ''0'') = Listening (Fin 3000)"
  "startup [''node'', ''server.js''] (Some ''-1'') = Exit 1"
  "startup [''node'', ''server.js'', ''65536''] None = Exit 1"
  "startup [''node'', ''server.js'', ''65535''] None = Listening (Fin 65535)"
  by code_simp+

section \<open>The captured diagnostics (C8)\<close>

text \<open>
  C8, as stated: after every capture step the buffer holds no more than about the final
  500 characters of the stream. After two chunks of 300 characters it holds 600.
\<close>

theorem stderr_buffer_exceeds_500:
  "length (captured [replicate 300 (CHR ''x''), replicate 300 (CHR ''y'')]) = 600
   \<and> \<not> length (captured [replicate 300 (CHR ''x''), replicate 300 (CHR ''y'')]) \<le> 500"
  by (simp add: captured_def on_data_def)

text \<open>
  C8, amended: while the child runs, every capture step appends the chunk to the buffer
  and nothing is discarded, so the buffer's length is the total length of the chunks
  received. The bound is applied only when the process closes with a code other than 0:
  the final 500 characters (at most) of the buffer are logged and the final 300
  characters (at most) are returned as the details of the 500 response.
\<close>

theorem stderr_buffer_keeps_everything:
  "captured (chunks @ [c]) = captured chunks @ c
   \<and> length (captured chunks) = sum_list (map length chunks)
   \<and> length (slice_last 500 (captured chunks)) \<le> 500
   \<and> length (slice_last 300 (captured chunks)) \<le> 300
   \<and> take (length (captured chunks) - 500) (captured chunks) @ slice_last 500 (captured chunks)
       = captured chunks
   \<and> (code \<noteq> Some 0 \<longrightarrow>
        LogDiag (slice_last 500 (captured (stderr_chunks w)))
          \<in> set (fst (on_close w i p n fm code fs))
        \<and> Json 500 fm (Some (slice_last 300 (captured (stderr_chunks w))))
          \<in> set (fst (on_close w i p n fm code fs)))"
proof -
  have step: "captured (chunks @ [c]) = captured chunks @ c"
    by (simp add: captured_concat)
  have total: "length (captured chunks) = sum_list (map length chunks)"
    by (simp add: captured_concat length_concat)
  have bound: "length (slice_last k s) \<le> k" for k s
    unfolding slice_last_def length_drop by arith
  have suffix: "take (length s - k) s @ slice_last k s = s" for k s
    by (simp add: slice_last_def)
  have used: "code \<noteq> Some 0 \<longrightarrow>
      LogDiag (slice_last 500 (captured (stderr_chunks w)))
        \<in> set (fst (on_close w i p n fm code fs))
      \<and> Json 500 fm (Some (slice_last 300 (captured (stderr_chunks w))))
        \<in> set (fst (on_close w i p n fm code fs))"
    by (simp add: on_close_def Let_def split_beta)
  from step total bound [of 500 "captured chunks"] bound [of 300 "captured chunks"]
       suffix [of "captured chunks" 500] used
  show ?thesis
    by blast
qed

theorem stderr_buffer_keeps_everything_witness:
  "Some 1 \<noteq> Some (0::int)
   \<and> LogDiag ''Unknown encoder libx264''
       \<in> set (fst (on_close (sample_world\<lparr>stderr_chunks := [''Unknown encoder '', ''libx264'']\<rparr>)
                      [Lit ''in''] [Lit ''out''] [Lit ''name''] ''Conversion failed'' (Some 1)
                      {[Lit ''in'']}))
   \<and> Json 500 ''Conversion failed'' (Some ''Unknown encoder libx264'')
       \<in> set (fst (on_close (sample_world\<lparr>stderr_chunks := [''Unknown encoder '', ''libx264'']\<rparr>)
                      [Lit ''in''] [Lit ''out''] [Lit ''name''] ''Conversion failed'' (Some 1)
                      {[Lit ''in'']}))"
proof -
  let ?w = "sample_world\<lparr>stderr_chunks := [''Unknown encoder '', ''libx264'']\<rparr>"
  have code: "Some 1 \<noteq> Some (0::int)"
    by simp
  have buf: "captured (stderr_chunks ?w) = ''Unknown encoder libx264''"
    by (simp add: captured_def on_data_def)
  have cut: "slice_last 500 ''Unknown encoder libx264'' = ''Unknown encoder libx264''"
    "slice_last 300 ''Unknown encoder libx264'' = ''Unknown encoder libx264''"
    by (simp_all add: slice_last_def)
  from stderr_buffer_keeps_everything
         [of "[]" "[]" "Some 1" ?w "[Lit ''in'']" "[Lit ''out'']" "[Lit ''name'']"
             "''Conversion failed''" "{[Lit ''in'']}"] code
  have "LogDiag (slice_last 500 (captured (stderr_chunks ?w)))
          \<in> set (fst (on_close ?w [Lit ''in''] [Lit ''out''] [Lit ''name''] ''Conversion failed''
                         (Some 1) {[Lit ''in'']}))
        \<and> Json 500 ''Conversion failed'' (Some (slice_last 300 (captured (stderr_chunks ?w))))
          \<in> set (fst (on_close ?w [Lit ''in''] [Lit ''out''] [Lit ''name''] ''Conversion failed''
                         (Some 1) {[Lit ''in'']}))"
    by blast
  then show ?thesis
    by (simp only: buf cut code simp_thms)
qed

section \<open>Removal of the scratch files (C1)\<close>

text \<open>
  Whenever the format field does not name an inherited property, both handlers unlink the
  upload on every path (validation failure, exit code other than 0, failure to start,
  download finished or failed) and leave no file of the request in the scratch directory:
  the directory afterwards is contained in what was there before without the upload, and
  after a \<open>close\<close> event the output file is not in it.
\<close>

lemma convert_cleanup:
  assumes "req_file req = Some f" and "[Lit (file_path f)] \<in> fs"
    and "FORMATS_get (toStringOpt (body_format req)) \<noteq> Inherited"
  shows "Unlink [Lit (file_path f)] \<in> set (fst (convert w req fs))
         \<and> snd (convert w req fs) \<subseteq> fs - {[Lit (file_path f)]}"
proof (cases "FORMATS_get (toStringOpt (body_format req))")
  case Undefined
  with assms show ?thesis
    by (simp add: convert_def truthy_def reject_result)
next
  case (Entry spec)
  with assms show ?thesis
    by (simp add: convert_def truthy_def reject_result Let_def unlink_run_ffmpeg
          scratch_run_ffmpeg)
next
  case Inherited
  with assms show ?thesis by simp
qed

lemma clip_cleanup:
  assumes "req_file req = Some f" and "[Lit (file_path f)] \<in> fs"
    and "FORMATS_get (clip_targetFormat req) \<noteq> Inherited"
  shows "Unlink [Lit (file_path f)] \<in> set (fst (clip w req fs))
         \<and> snd (clip w req fs) \<subseteq> fs - {[Lit (file_path f)]}"
proof (cases "FORMATS_get (clip_targetFormat req)")
  case Undefined
  with assms show ?thesis
    by (simp add: clip_def truthy_def reject_result Let_def)
next
  case (Entry spec)
  with assms show ?thesis
    by (simp add: clip_def truthy_def reject_result Let_def unlink_run_ffmpeg
          scratch_run_ffmpeg)
next
  case Inherited
  with assms show ?thesis by simp
qed

lemma output_removed_after_close:
  assumes "child w = CloseEvent code"
  shows "p \<notin> snd (run_ffmpeg w args i p n fm sm fs)"
    and "writes_output w \<Longrightarrow> p \<noteq> i \<Longrightarrow> Unlink p \<in> set (fst (run_ffmpeg w args i p n fm sm fs))"
  using assms
  by (auto simp: snd_run_ffmpeg fst_run_ffmpeg child_steps_def scratch_on_close on_close_def
        remove_output_def Let_def)

text \<open>
  C1. The claim: for every request to \<open>POST /api/convert\<close> or \<open>POST /api/clip\<close> the
  deletion of every scratch file of the request is attempted before the handling ends.
  The code at a request with an uploaded file and \<open>format=constructor\<close>: the handler
  passes the format check, throws while building the argument list and makes no call of
  \<open>unlinkSync\<close>; the upload stays in the scratch directory.
\<close>

theorem convert_inherited_format_leaves_upload:
  "convert sample_world (sample_request (Some ''constructor'') None None) sample_scratch
     = ([Uncaught TypeError], sample_scratch)
   \<and> [Lit (file_path sample_upload)] \<in> sample_scratch
   \<and> Unlink [Lit (file_path sample_upload)]
        \<notin> set (fst (convert sample_world (sample_request (Some ''constructor'') None None)
                      sample_scratch))"
  by code_simp

end
